theory Spec2Isabelle
  imports Complex_Main "HOL-Library.Sublist"
begin

section \<open>JavaScript values used by the dashboard\<close>

text \<open>
  The repository holds two copies of the dashboard component \<^verbatim>\<open>CropDashboard\<close>:
  \<^verbatim>\<open>src/App.jsx\<close> and a revised copy of it in a second source file, which carries the
  comments \<^verbatim>\<open>FIX: Robust Health Score\<close>, \<^verbatim>\<open>FIX: Ensure soil object exists\<close> and
  \<^verbatim>\<open>FIX: Silt Calculation\<close>. Definitions without a suffix embed the revised copy;
  definitions ending in \<open>_App\<close> embed \<^verbatim>\<open>src/App.jsx\<close>. \<^verbatim>\<open>handleAddressChange\<close> and the
  part of \<^verbatim>\<open>fetchAnalysisFromAzure\<close> around the published object are the same text in both
  copies and are embedded once.

  A JavaScript number is modelled by the rational it denotes (every finite double is one;
  comparisons are exact, and the one subtraction on soil values, in the silt completion,
  is taken without rounding). A numeric property of the backend's JSON that may be missing
  is a \<open>rat option\<close>, \<open>None\<close> standing for \<^verbatim>\<open>undefined\<close>, the value of a property that
  is not there; a property that is there holds a number (a JSON \<^verbatim>\<open>null\<close>, a string or a
  non-finite number in its place is outside the model).
\<close>

text \<open>\<^verbatim>\<open>x || d\<close> on a number or \<^verbatim>\<open>undefined\<close>: the default replaces every falsy value,
  so a present \<open>0\<close> as well as a missing property.\<close>

definition or_default :: "rat option \<Rightarrow> rat \<Rightarrow> rat" where
  "or_default x d = (case x of None \<Rightarrow> d | Some v \<Rightarrow> if v = 0 then d else v)"

text \<open>\<^verbatim>\<open>!x\<close> on a number or \<^verbatim>\<open>undefined\<close>.\<close>

definition falsy :: "rat option \<Rightarrow> bool" where
  "falsy x = (case x of None \<Rightarrow> True | Some v \<Rightarrow> v = 0)"

subsection \<open>Number.prototype.toFixed\<close>

text \<open>The decimal digits of a natural number; \<open>digit_char\<close> is only applied to a digit
  \<open>d < 10\<close>.\<close>

definition digit_char :: "nat \<Rightarrow> char" where
  "digit_char d = ''0123456789'' ! d"

fun digits :: "nat \<Rightarrow> string" where
  "digits n = (if n < 10 then [digit_char n] else digits (n div 10) @ [digit_char (n mod 10)])"

declare digits.simps [simp del]

text \<open>
  \<^verbatim>\<open>x.toFixed(f)\<close>, following the language standard: the sign is split off, \<open>n\<close> is the
  integer nearest to \<open>x * 10^f\<close> (the larger one on a tie), its decimal digits are padded
  with zeros to \<open>f + 1\<close> places and the point is put before the last \<open>f\<close> of them. This is
  the builtin's result for magnitudes below \<open>10^21\<close>; from there on JavaScript prints the
  exponent form of the number, which is outside this model.
\<close>

definition toFixed :: "nat \<Rightarrow> rat \<Rightarrow> string" where
  "toFixed f x =
     (let s = (if x < 0 then ''-'' else '''');
          a = (if x < 0 then - x else x);
          n = nat \<lfloor>a * 10 ^ f + 1 / 2\<rfloor>;
          m = digits n;
          m = (if f = 0 then m
               else let z = replicate (f + 1 - length m) (CHR ''0'') @ m;
                        k = length z
                    in take (k - f) z @ ''.'' @ drop (k - f) z)
      in s @ m)"

section \<open>Data model\<close>

record soil =
  ph :: "rat option"
  soc :: "rat option"
  nitrogen :: "rat option"
  sand :: "rat option"
  silt :: "rat option"
  clay :: "rat option"

text \<open>An entry of \<^verbatim>\<open>issues\<close> is \<^verbatim>\<open>{message, severity}\<close>, an entry of \<^verbatim>\<open>strengths\<close> is
  \<^verbatim>\<open>{message}\<close>: the same record, with no severity.\<close>

record entry =
  message :: string
  severity :: "string option"

record health =
  score :: int
  issues :: "entry list"
  strengths :: "entry list"

record fertilizer_item =
  nutrient :: string
  priority :: string
  amount :: string
  fertilizer :: string
  current :: string
  target :: string
  timing :: string

section \<open>The data helpers, revised copy\<close>

definition getTextureClass :: "rat option \<Rightarrow> rat option \<Rightarrow> string" where
  "getTextureClass sand_v clay_v =
     (let s = or_default sand_v 0;
          c = or_default clay_v 0
      in if s + c = 0 then ''Unknown''
         else if c \<ge> 40 then ''Clay''
         else if s > 45 then ''Sandy Loam''
         else ''Loam'')"

text \<open>The three checks of \<^verbatim>\<open>getHealthScore\<close>, on the values after the defaults, up to but
  not including the final \<^verbatim>\<open>Math.max(0, score)\<close>.\<close>

definition healthChecks :: "rat \<Rightarrow> rat \<Rightarrow> rat \<Rightarrow> health" where
  "healthChecks ph_v soc_v nitrogen_v =
     (let h = \<lparr>score = 100, issues = [], strengths = []\<rparr>;
          h = (if ph_v < 6 then
                 h\<lparr>score := score h - 15,
                   issues := issues h @
                     [\<lparr>message = ''Acidic Soil (pH '' @ toFixed 1 ph_v @ '')'',
                       severity = Some ''medium''\<rparr>]\<rparr>
               else if ph_v > 7.5 then
                 h\<lparr>score := score h - 15,
                   issues := issues h @
                     [\<lparr>message = ''Alkaline Soil (pH '' @ toFixed 1 ph_v @ '')'',
                       severity = Some ''medium''\<rparr>]\<rparr>
               else
                 h\<lparr>strengths := strengths h @
                     [\<lparr>message = ''pH is in optimal range'', severity = None\<rparr>]\<rparr>);
          h = (if soc_v < 15 then
                 h\<lparr>score := score h - 20,
                   issues := issues h @
                     [\<lparr>message = ''Low organic matter'', severity = Some ''high''\<rparr>]\<rparr>
               else
                 h\<lparr>strengths := strengths h @
                     [\<lparr>message = ''Good organic matter'', severity = None\<rparr>]\<rparr>);
          h = (if nitrogen_v < 2 then
                 h\<lparr>score := score h - 15,
                   issues := issues h @
                     [\<lparr>message = ''Low Nitrogen'', severity = Some ''medium''\<rparr>]\<rparr>
               else h)
      in h)"

text \<open>\<^verbatim>\<open>getHealthScore(soil)\<close>; \<open>None\<close> as argument is a missing soil object, \<open>None\<close> as
  result is \<^verbatim>\<open>null\<close>.\<close>

definition getHealthScore :: "soil option \<Rightarrow> health option" where
  "getHealthScore soil_opt =
     (case soil_opt of
        None \<Rightarrow> None
      | Some s \<Rightarrow>
          let ph_v = or_default (ph s) 6.5;
              soc_v = or_default (soc s) 20;
              nitrogen_v = or_default (nitrogen s) 2.5;
              h = healthChecks ph_v soc_v nitrogen_v
          in Some (h\<lparr>score := max 0 (score h)\<rparr>))"

definition getFertilizerPlan :: "soil option \<Rightarrow> fertilizer_item list" where
  "getFertilizerPlan soil_opt =
     (case soil_opt of
        None \<Rightarrow> []
      | Some s \<Rightarrow>
          let plan = [];
              ph_v = or_default (ph s) 6.5;
              nitrogen_v = or_default (nitrogen s) 2.5;
              plan = (if nitrogen_v < 2 then
                        plan @ [\<lparr>nutrient = ''Nitrogen (N)'', priority = ''HIGH'',
                                 amount = ''80-100 lbs/ac'', fertilizer = ''Urea (46-0-0)'',
                                 current = toFixed 2 nitrogen_v, target = ''3.5'',
                                 timing = ''Split application at planting''\<rparr>]
                      else plan);
              plan = (if ph_v < 6 \<and> ph_v > 0 then
                        plan @ [\<lparr>nutrient = ''pH Adjustment'', priority = ''HIGH'',
                                 amount = ''2-3 tons/ac'', fertilizer = ''Ag Limestone'',
                                 current = toFixed 1 ph_v, target = ''6.5'',
                                 timing = ''Fall application''\<rparr>]
                      else plan)
          in plan)"

section \<open>The data helpers of \<^verbatim>\<open>src/App.jsx\<close>\<close>

text \<open>Past the first test both values are numbers other than zero, which \<open>or_default\<close>
  then reads off.\<close>

definition getTextureClass_App :: "rat option \<Rightarrow> rat option \<Rightarrow> string" where
  "getTextureClass_App sand_v clay_v =
     (if falsy sand_v \<or> falsy clay_v then ''Unknown''
      else if or_default clay_v 0 \<ge> 40 then ''Clay''
      else if or_default sand_v 0 > 45 then ''Sandy Loam''
      else ''Loam'')"

text \<open>
  This copy compares the properties of the soil object as they are. A comparison with
  \<^verbatim>\<open>undefined\<close> is false in JavaScript, so a missing \<^verbatim>\<open>ph\<close> takes the last branch of the pH
  check, and a missing \<^verbatim>\<open>soc\<close> or \<^verbatim>\<open>nitrogen\<close> the \<^verbatim>\<open>else\<close> side of its check.
\<close>

definition healthChecks_App :: "soil \<Rightarrow> health" where
  "healthChecks_App s =
     (let h = \<lparr>score = 100, issues = [], strengths = []\<rparr>;
          h = (case ph s of
                 None \<Rightarrow>
                   h\<lparr>strengths := strengths h @
                       [\<lparr>message = ''pH is in optimal range'', severity = None\<rparr>]\<rparr>
               | Some ph_v \<Rightarrow>
                   if ph_v < 6 then
                     h\<lparr>score := score h - 15,
                       issues := issues h @
                         [\<lparr>message = ''Acidic Soil (pH '' @ toFixed 1 ph_v @ '')'',
                           severity = Some ''medium''\<rparr>]\<rparr>
                   else if ph_v > 7.5 then
                     h\<lparr>score := score h - 15,
                       issues := issues h @
                         [\<lparr>message = ''Alkaline Soil (pH '' @ toFixed 1 ph_v @ '')'',
                           severity = Some ''medium''\<rparr>]\<rparr>
                   else
                     h\<lparr>strengths := strengths h @
                         [\<lparr>message = ''pH is in optimal range'', severity = None\<rparr>]\<rparr>);
          h = (case soc s of
                 None \<Rightarrow>
                   h\<lparr>strengths := strengths h @
                       [\<lparr>message = ''Good organic matter'', severity = None\<rparr>]\<rparr>
               | Some soc_v \<Rightarrow>
                   if soc_v < 15 then
                     h\<lparr>score := score h - 20,
                       issues := issues h @
                         [\<lparr>message = ''Low organic matter'', severity = Some ''high''\<rparr>]\<rparr>
                   else
                     h\<lparr>strengths := strengths h @
                         [\<lparr>message = ''Good organic matter'', severity = None\<rparr>]\<rparr>);
          h = (case nitrogen s of
                 None \<Rightarrow> h
               | Some nitrogen_v \<Rightarrow>
                   if nitrogen_v < 2 then
                     h\<lparr>score := score h - 15,
                       issues := issues h @
                         [\<lparr>message = ''Low Nitrogen'', severity = Some ''medium''\<rparr>]\<rparr>
                   else h)
      in h)"

definition getHealthScore_App :: "soil option \<Rightarrow> health" where
  "getHealthScore_App soil_opt =
     (case soil_opt of
        None \<Rightarrow> \<lparr>score = 0, issues = [], strengths = []\<rparr>
      | Some s \<Rightarrow> let h = healthChecks_App s in h\<lparr>score := max 0 (score h)\<rparr>)"

definition getFertilizerPlan_App :: "soil option \<Rightarrow> fertilizer_item list" where
  "getFertilizerPlan_App soil_opt =
     (case soil_opt of
        None \<Rightarrow> []
      | Some s \<Rightarrow>
          let plan = [];
              plan = (case nitrogen s of
                        None \<Rightarrow> plan
                      | Some nitrogen_v \<Rightarrow>
                          if nitrogen_v < 2 then
                            plan @ [\<lparr>nutrient = ''Nitrogen (N)'', priority = ''HIGH'',
                                     amount = ''80-100 lbs/ac'', fertilizer = ''Urea (46-0-0)'',
                                     current = toFixed 2 nitrogen_v, target = ''3.5'',
                                     timing = ''Split application at planting''\<rparr>]
                          else plan);
              plan = (case ph s of
                        None \<Rightarrow> plan
                      | Some ph_v \<Rightarrow>
                          if ph_v < 6 then
                            plan @ [\<lparr>nutrient = ''pH Adjustment'', priority = ''HIGH'',
                                     amount = ''2-3 tons/ac'', fertilizer = ''Ag Limestone'',
                                     current = toFixed 1 ph_v, target = ''6.5'',
                                     timing = ''Fall application''\<rparr>]
                          else plan)
          in plan)"

section \<open>Field analysis: \<^verbatim>\<open>fetchAnalysisFromAzure\<close>\<close>

text \<open>The properties of the clicked map feature.\<close>

record props =
  CROP_TYPE :: int
  CNTY :: "string option"
  CSBACRES :: "rat option"

text \<open>The arguments of one call \<^verbatim>\<open>fetchAnalysisFromAzure(lat, lon, cropName, currentProps)\<close>,
  which the pending continuation of the call keeps in its closure.\<close>

record request =
  lat :: rat
  lon :: rat
  r_cropName :: string
  currentProps :: props

text \<open>An entry \<^verbatim>\<open>{crop, code, acres}\<close> of the history, and an entry
  \<^verbatim>\<open>{name, reason, score}\<close> of the backend's crop recommendations (the field names carry
  a prefix where the source's name is taken by another record).\<close>

record history_entry =
  crop :: string
  code :: int
  h_acres :: "rat option"

record crop_rec =
  name :: string
  reason :: "string option"
  rec_score :: rat

text \<open>The JSON object of the analysis endpoint; each of its three properties may be
  missing.\<close>

record analysis_data =
  d_soil :: "soil option"
  d_history :: "(nat \<rightharpoonup> history_entry) option"
  d_recommendations :: "crop_rec list option"

text \<open>The object passed to \<^verbatim>\<open>setFieldData\<close>.\<close>

record field_data =
  cropName :: string
  county :: "string option"
  acres :: "rat option"
  history :: "nat \<rightharpoonup> history_entry"
  soil :: "soil option"
  recommendations :: "crop_rec list"
  texture :: string
  healthData :: "health option"
  fertilizerPlan :: "fertilizer_item list"
  location :: "rat \<times> rat"

definition CURRENT_YEAR :: nat where
  "CURRENT_YEAR = 2022"

text \<open>How the \<^verbatim>\<open>await\<close>s of one call end: \<^verbatim>\<open>fetch\<close> rejects (network error), or it gives
  a response with its \<^verbatim>\<open>ok\<close> flag and status text, whose \<^verbatim>\<open>json()\<close> either fails or gives
  the data object.\<close>

datatype body = BadJson | Json analysis_data

datatype fetch_result = Rejected | Response bool string body

datatype js_error = NetworkFailure | Error string | JsonFailure

text \<open>The React state of the component that the analysis touches, with the effects
  outside it: the errors written to the console, the \<^verbatim>\<open>alert\<close> boxes shown and the
  requests sent (by latitude and longitude), each in order. \<open>isMobile\<close> is the value the
  function's closure sees.\<close>

record ui_state =
  fieldData :: "field_data option"
  loading :: bool
  showAnalytics :: bool
  isMobileMenuOpen :: bool
  isMobile :: bool
  console :: "js_error list"
  alerts :: "string list"
  fetches :: "(rat \<times> rat) list"

text \<open>The object built in the \<^verbatim>\<open>try\<close> block of the revised copy.\<close>

definition buildFieldData :: "request \<Rightarrow> analysis_data \<Rightarrow> field_data" where
  "buildFieldData req data =
     (let hist = (case d_history data of None \<Rightarrow> Map.empty | Some h \<Rightarrow> h);
          hist = hist(CURRENT_YEAR \<mapsto>
                   \<lparr>crop = r_cropName req, code = CROP_TYPE (currentProps req),
                     h_acres = CSBACRES (currentProps req)\<rparr>);
          so = (case d_soil data of
                  None \<Rightarrow> \<lparr>ph = Some 6.5, soc = Some 20, nitrogen = Some 2.5,
                            sand = Some 35, silt = None, clay = Some 25\<rparr>
                | Some s \<Rightarrow> s);
          so = (if silt so = None then
                  so\<lparr>silt := Some (max 0 (100 - or_default (sand so) 0 - or_default (clay so) 0))\<rparr>
                else so)
      in \<lparr>cropName = r_cropName req,
          county = CNTY (currentProps req),
          acres = CSBACRES (currentProps req),
          history = hist,
          soil = Some so,
          recommendations = (case d_recommendations data of None \<Rightarrow> [] | Some r \<Rightarrow> r),
          texture = getTextureClass (sand so) (clay so),
          healthData = getHealthScore (Some so),
          fertilizerPlan = getFertilizerPlan (Some so),
          location = (lat req, lon req)\<rparr>)"

text \<open>The object built in \<^verbatim>\<open>src/App.jsx\<close>: the soil object goes through as it came.\<close>

definition buildFieldData_App :: "request \<Rightarrow> analysis_data \<Rightarrow> field_data" where
  "buildFieldData_App req data =
     (let hist = (case d_history data of None \<Rightarrow> Map.empty | Some h \<Rightarrow> h);
          hist = hist(CURRENT_YEAR \<mapsto>
                   \<lparr>crop = r_cropName req, code = CROP_TYPE (currentProps req),
                     h_acres = CSBACRES (currentProps req)\<rparr>)
      in \<lparr>cropName = r_cropName req,
          county = CNTY (currentProps req),
          acres = CSBACRES (currentProps req),
          history = hist,
          soil = d_soil data,
          recommendations = (case d_recommendations data of None \<Rightarrow> [] | Some r \<Rightarrow> r),
          texture = getTextureClass_App
                      (case d_soil data of None \<Rightarrow> None | Some s \<Rightarrow> sand s)
                      (case d_soil data of None \<Rightarrow> None | Some s \<Rightarrow> clay s),
          healthData = Some (getHealthScore_App (d_soil data)),
          fertilizerPlan = getFertilizerPlan_App (d_soil data),
          location = (lat req, lon req)\<rparr>)"

text \<open>The function up to its first \<^verbatim>\<open>await\<close>.\<close>

definition fetchAnalysis_start :: "request \<Rightarrow> ui_state \<Rightarrow> ui_state" where
  "fetchAnalysis_start req st =
     (let st = st\<lparr>loading := True\<rparr>;
          st = st\<lparr>showAnalytics := True\<rparr>;
          st = (if isMobile st then st\<lparr>isMobileMenuOpen := False\<rparr> else st)
      in st\<lparr>fetches := fetches st @ [(lat req, lon req)]\<rparr>)"

definition catch_block :: "js_error \<Rightarrow> ui_state \<Rightarrow> ui_state" where
  "catch_block e st = st\<lparr>console := console st @ [e], alerts := alerts st @ [''Analysis failed.'']\<rparr>"

definition finally_block :: "ui_state \<Rightarrow> ui_state" where
  "finally_block st = st\<lparr>loading := False\<rparr>"

text \<open>The rest of the function, run when the request is settled. The two copies differ in
  the object they build only, so the builder is an argument.\<close>

definition fetchAnalysis_settle ::
  "(request \<Rightarrow> analysis_data \<Rightarrow> field_data) \<Rightarrow> request \<Rightarrow> fetch_result \<Rightarrow> ui_state \<Rightarrow> ui_state" where
  "fetchAnalysis_settle build req res st =
     finally_block
       (case res of
          Rejected \<Rightarrow> catch_block NetworkFailure st
        | Response ok statusText b \<Rightarrow>
            if ok then
              (case b of
                 BadJson \<Rightarrow> catch_block JsonFailure st
               | Json data \<Rightarrow> st\<lparr>fieldData := Some (build req data)\<rparr>)
            else catch_block (Error (''Server Error: '' @ statusText)) st)"

definition fetchAnalysisFromAzure_settle :: "request \<Rightarrow> fetch_result \<Rightarrow> ui_state \<Rightarrow> ui_state" where
  "fetchAnalysisFromAzure_settle = fetchAnalysis_settle buildFieldData"

definition fetchAnalysisFromAzure_App_settle :: "request \<Rightarrow> fetch_result \<Rightarrow> ui_state \<Rightarrow> ui_state" where
  "fetchAnalysisFromAzure_App_settle = fetchAnalysis_settle buildFieldData_App"

text \<open>A request fails when \<^verbatim>\<open>fetch\<close> rejects, the response is not \<^verbatim>\<open>ok\<close>, or its body is
  not the JSON object.\<close>

fun failed :: "fetch_result \<Rightarrow> bool" where
  "failed Rejected = True"
| "failed (Response ok statusText BadJson) = True"
| "failed (Response ok statusText (Json data)) = (\<not> ok)"

subsection \<open>The event loop around it\<close>

text \<open>
  The page is single-threaded: between two \<^verbatim>\<open>await\<close>s a call runs to its end, and calls
  interleave at the \<^verbatim>\<open>await\<close>s only. A run of the page is therefore a list of events: the
  user starts an analysis for a clicked field, or the request with a given number (in the
  order of sending, from 0) is settled with a result. Settling a request that was never
  sent, or one already settled, is not an event of the page and changes nothing.
\<close>

datatype event = Click request | Settle nat fetch_result

record session =
  ui :: ui_state
  requests :: "request list"
  settled :: "nat list"

definition step ::
  "(request \<Rightarrow> fetch_result \<Rightarrow> ui_state \<Rightarrow> ui_state) \<Rightarrow> event \<Rightarrow> session \<Rightarrow> session" where
  "step settle ev s =
     (case ev of
        Click req \<Rightarrow> s\<lparr>ui := fetchAnalysis_start req (ui s), requests := requests s @ [req]\<rparr>
      | Settle i res \<Rightarrow>
          if i < length (requests s) \<and> i \<notin> set (settled s) then
            s\<lparr>ui := settle (requests s ! i) res (ui s), settled := i # settled s\<rparr>
          else s)"

fun run ::
  "(request \<Rightarrow> fetch_result \<Rightarrow> ui_state \<Rightarrow> ui_state) \<Rightarrow> event list \<Rightarrow> session \<Rightarrow> session" where
  "run settle [] s = s"
| "run settle (ev # evs) s = run settle evs (step settle ev s)"

definition fresh :: "ui_state \<Rightarrow> session" where
  "fresh st = \<lparr>ui = st, requests = [], settled = []\<rparr>"

text \<open>The state of the component after mounting, on a desktop screen.\<close>

definition initial_ui :: ui_state where
  "initial_ui = \<lparr>fieldData = None, loading = False, showAnalytics = False,
     isMobileMenuOpen = False, isMobile = False, console = [], alerts = [], fetches = []\<rparr>"

section \<open>Address search: \<^verbatim>\<open>handleAddressChange\<close>\<close>

text \<open>A candidate of the geocoder, and a suggestion: the candidate with its rank score
  (\<^verbatim>\<open>{...item, rankScore: score}\<close>).\<close>

record geo_item =
  display_name :: string
  g_lat :: string
  g_lon :: string

record suggestion = geo_item +
  rankScore :: int

text \<open>\<^verbatim>\<open>toLowerCase\<close> on the ASCII letters; other characters are left as they are.\<close>

definition lower_char :: "char \<Rightarrow> char" where
  "lower_char c = (let n = (of_char c :: nat) in if 65 \<le> n \<and> n \<le> 90 then char_of (n + 32) else c)"

definition toLowerCase :: "string \<Rightarrow> string" where
  "toLowerCase = map lower_char"

definition startsWith :: "string \<Rightarrow> string \<Rightarrow> bool" where
  "startsWith str pre = prefix pre str"

text \<open>The ranking of a response: the score of each candidate, a stable sort by descending
  score (the comparator is \<^verbatim>\<open>b.rankScore - a.rankScore\<close>), the first five.\<close>

definition rank_item :: "string \<Rightarrow> geo_item \<Rightarrow> suggestion" where
  "rank_item val item =
     (let sc = 0;
          sc = (if startsWith (toLowerCase (display_name item)) (toLowerCase val)
                then sc + 100 else sc)
      in \<lparr>display_name = display_name item, g_lat = g_lat item, g_lon = g_lon item,
          rankScore = sc\<rparr>)"

definition rank :: "string \<Rightarrow> geo_item list \<Rightarrow> suggestion list" where
  "rank val data = take 5 (sort_key (\<lambda>x. - rankScore x) (map (rank_item val) data))"

text \<open>How the lookup of one timer callback ends: \<^verbatim>\<open>fetch\<close> or \<^verbatim>\<open>json()\<close> fails, or the
  JSON value is an array of candidates or something else.\<close>

datatype payload = NotArray | Array "geo_item list"

datatype search_result = SearchFailed | SearchJson payload

text \<open>
  The state of the search box. \<open>searchTimeout\<close> is the ref holding the id of the timer set
  last (the browser numbers its timers from 1, so an id is never falsy); \<open>timers\<close> are the
  timers of the browser that were set and have neither fired nor been cleared, each with
  the query its callback closes over; \<open>calls\<close> are the geocoder requests sent, by query, in
  order (a request's number is its position, from 0); \<open>answered\<close> are the numbers of the
  requests answered.
\<close>

record search_state =
  address :: string
  suggestions :: "suggestion list"
  showSuggestions :: bool
  isSearching :: bool
  searchTimeout :: "nat option"
  timers :: "(nat \<times> string) list"
  nextTimer :: nat
  calls :: "string list"
  answered :: "nat list"

definition clearTimeout :: "nat \<Rightarrow> search_state \<Rightarrow> search_state" where
  "clearTimeout t st = st\<lparr>timers := filter (\<lambda>p. fst p \<noteq> t) (timers st)\<rparr>"

definition handleAddressChange :: "string \<Rightarrow> search_state \<Rightarrow> search_state" where
  "handleAddressChange val st =
     (let st = st\<lparr>address := val\<rparr>
      in if length val < 3 then st\<lparr>showSuggestions := False\<rparr>
         else
           let st = (case searchTimeout st of None \<Rightarrow> st | Some t \<Rightarrow> clearTimeout t st);
               st = st\<lparr>isSearching := True\<rparr>;
               t = nextTimer st
           in st\<lparr>searchTimeout := Some t, timers := timers st @ [(t, val)], nextTimer := t + 1\<rparr>)"

text \<open>The timer callback up to its \<^verbatim>\<open>await\<close>: the timer is gone and the request is sent.\<close>

definition timer_fires :: "nat \<Rightarrow> search_state \<Rightarrow> search_state" where
  "timer_fires t st =
     (case map_of (timers st) t of
        None \<Rightarrow> st
      | Some val \<Rightarrow> (clearTimeout t st)\<lparr>calls := calls st @ [val]\<rparr>)"

text \<open>The rest of the callback, for the query \<open>val\<close> of its closure.\<close>

definition search_settle :: "string \<Rightarrow> search_result \<Rightarrow> search_state \<Rightarrow> search_state" where
  "search_settle val res st =
     (let st = (case res of
                  SearchFailed \<Rightarrow> st\<lparr>suggestions := []\<rparr>
                | SearchJson data \<Rightarrow>
                    let ranked = (case data of NotArray \<Rightarrow> [] | Array items \<Rightarrow> rank val items);
                        st = st\<lparr>suggestions := ranked\<rparr>
                    in st\<lparr>showSuggestions := (length ranked > 0)\<rparr>)
      in st\<lparr>isSearching := False\<rparr>)"

text \<open>The events of the search box: the input changes, a pending timer fires (400 ms
  after it was set; the model keeps the order of events, not the time), the request with
  a given number is answered.\<close>

datatype search_event = Change string | TimerFires nat | Answer nat search_result

definition search_step :: "search_event \<Rightarrow> search_state \<Rightarrow> search_state" where
  "search_step ev st =
     (case ev of
        Change val \<Rightarrow> handleAddressChange val st
      | TimerFires t \<Rightarrow> timer_fires t st
      | Answer i res \<Rightarrow>
          if i < length (calls st) \<and> i \<notin> set (answered st) then
            search_settle (calls st ! i) res (st\<lparr>answered := i # answered st\<rparr>)
          else st)"

fun search_run :: "search_event list \<Rightarrow> search_state \<Rightarrow> search_state" where
  "search_run [] st = st"
| "search_run (ev # evs) st = search_run evs (search_step ev st)"

definition initial_search :: search_state where
  "initial_search = \<lparr>address = [], suggestions = [], showSuggestions = False,
     isSearching = False, searchTimeout = None, timers = [], nextTimer = 1, calls = [],
     answered = []\<rparr>"

section \<open>Example inputs\<close>

definition soil_low_n :: soil where
  "soil_low_n = \<lparr>ph = Some 6.5, soc = Some 20, nitrogen = Some 1.5,
     sand = Some 30, silt = Some 50, clay = Some 20\<rparr>"

definition soil_zero_n :: soil where
  "soil_zero_n = \<lparr>ph = Some 6.5, soc = Some 20, nitrogen = Some 0,
     sand = Some 30, silt = Some 50, clay = Some 20\<rparr>"

definition soil_zero_ph :: soil where
  "soil_zero_ph = \<lparr>ph = Some 0, soc = Some 20, nitrogen = Some 2.5,
     sand = Some 30, silt = Some 50, clay = Some 20\<rparr>"

definition soil_no_silt :: soil where
  "soil_no_silt = \<lparr>ph = Some 6.5, soc = Some 20, nitrogen = Some 2.5,
     sand = Some 30, silt = None, clay = Some 20\<rparr>"

definition click_corn :: request where
  "click_corn = \<lparr>lat = 41, lon = -93, r_cropName = ''Corn'',
     currentProps = \<lparr>CROP_TYPE = 1, CNTY = Some ''Story'', CSBACRES = Some 80\<rparr>\<rparr>"

definition click_soy :: request where
  "click_soy = \<lparr>lat = 42, lon = -94, r_cropName = ''Soybeans'',
     currentProps = \<lparr>CROP_TYPE = 5, CNTY = Some ''Boone'', CSBACRES = Some 40\<rparr>\<rparr>"

definition data_of :: "soil \<Rightarrow> analysis_data" where
  "data_of s = \<lparr>d_soil = Some s, d_history = None, d_recommendations = None\<rparr>"

definition main_st :: geo_item where
  "main_st = \<lparr>display_name = ''Main St, Springfield'', g_lat = ''39.8'', g_lon = ''-89.6''\<rparr>"

definition maine :: geo_item where
  "maine = \<lparr>display_name = ''Maine, United States'', g_lat = ''45.3'', g_lon = ''-69.2''\<rparr>"

text \<open>The page showing the analysis of the corn field, the state before a later click.\<close>

definition shown_corn :: ui_state where
  "shown_corn = initial_ui\<lparr>fieldData := Some (buildFieldData click_corn (data_of soil_low_n)),
     showAnalytics := True\<rparr>"

section \<open>Facts about the helpers\<close>

lemma or_default_idem: "d \<noteq> 0 \<Longrightarrow> or_default (Some (or_default x d)) d = or_default x d"
  by (simp add: or_default_def split: option.splits)

lemma or_default_zero: "or_default (Some 0) d = d"
  by (simp add: or_default_def)

lemma or_default_nonzero: "v \<noteq> 0 \<Longrightarrow> or_default (Some v) d = v"
  by (simp add: or_default_def)

lemma healthChecks_score_bounds:
  "50 \<le> score (healthChecks p c n) \<and> score (healthChecks p c n) \<le> 100"
  by (simp add: healthChecks_def Let_def)

lemma healthChecks_App_score_bounds:
  "50 \<le> score (healthChecks_App s) \<and> score (healthChecks_App s) \<le> 100"
  by (simp add: healthChecks_App_def Let_def split: option.splits)

text \<open>The revised copy answers a missing soil object with \<^verbatim>\<open>null\<close>.\<close>

lemma getHealthScore_absent: "getHealthScore None = None"
  by (simp add: getHealthScore_def)

lemma getHealthScore_present: "getHealthScore (Some s) \<noteq> None"
  by (simp add: getHealthScore_def Let_def)

text \<open>The revised texture rule on percentages, that is, on values that are not negative:
  \<^verbatim>\<open>Unknown\<close> exactly when both values are missing or zero, and the thresholds otherwise.\<close>

lemma getTextureClass_Unknown_iff:
  assumes "0 \<le> or_default sa 0" and "0 \<le> or_default cl 0"
  shows "getTextureClass sa cl = ''Unknown'' \<longleftrightarrow> falsy sa \<and> falsy cl"
  using assms
  by (auto simp: getTextureClass_def or_default_def falsy_def Let_def split: option.splits if_splits)

lemma getTextureClass_thresholds:
  assumes "0 \<le> or_default sa 0" and "0 \<le> or_default cl 0" and "\<not> (falsy sa \<and> falsy cl)"
  shows "getTextureClass sa cl =
           (if or_default cl 0 \<ge> 40 then ''Clay''
            else if or_default sa 0 > 45 then ''Sandy Loam'' else ''Loam'')"
  using assms
  by (auto simp: getTextureClass_def or_default_def falsy_def Let_def split: option.splits if_splits)

text \<open>The silt completion of the revised copy, for every soil object of the backend.\<close>

lemma buildFieldData_silt:
  assumes "d_soil data = Some s" and "silt s = None"
  shows "soil (buildFieldData req data) =
           Some (s\<lparr>silt := Some (max 0 (100 - or_default (sand s) 0 - or_default (clay s) 0))\<rparr>)"
  using assms by (simp add: buildFieldData_def Let_def)

lemma buildFieldData_silt_kept:
  assumes "d_soil data = Some s" and "silt s = Some v"
  shows "soil (buildFieldData req data) = Some s"
  using assms by (simp add: buildFieldData_def Let_def)

text \<open>A short input changes the address and hides the list; nothing else, so every
  pending timer stays.\<close>

lemma handleAddressChange_short:
  "length val < 3 \<Longrightarrow> handleAddressChange val st = st\<lparr>address := val, showSuggestions := False\<rparr>"
  by (simp add: handleAddressChange_def Let_def)

text \<open>Settling a sent, unsettled request that succeeded publishes the object built from
  that request's own arguments, whatever was clicked since.\<close>

lemma step_Settle_ok:
  assumes "i < length (requests s)" and "i \<notin> set (settled s)"
  shows "fieldData (ui (step (fetchAnalysis_settle build) (Settle i (Response True t (Json d))) s)) =
           Some (build (requests s ! i) d)"
  using assms by (simp add: step_def fetchAnalysis_settle_def finally_block_def)

text \<open>An answer to a sent, unanswered lookup that is an array replaces the list by its
  ranking for that lookup's own query, whatever was typed or sent since.\<close>

lemma search_step_Answer_array:
  assumes "i < length (calls st)" and "i \<notin> set (answered st)"
  shows "suggestions (search_step (Answer i (SearchJson (Array xs))) st) = rank (calls st ! i) xs"
  using assms by (simp add: search_step_def search_settle_def Let_def)

section \<open>The claims\<close>

text \<open>
  C1. For a missing soil object the health assessment is to be absent, never an
  assessment with score 0. \<^verbatim>\<open>getHealthScore\<close> of \<^verbatim>\<open>src/App.jsx\<close> returns the zero-valued
  assessment \<^verbatim>\<open>{score: 0, issues: [], strengths: []}\<close> there, and the object it publishes
  for a response without soil carries that assessment; the revised copy returns \<^verbatim>\<open>null\<close>
  (lemma \<open>getHealthScore_absent\<close>).
\<close>

theorem C1_getHealthScore_App_absent_is_zero_score:
  "getHealthScore_App None = \<lparr>score = 0, issues = [], strengths = []\<rparr> \<and>
   healthData (buildFieldData_App click_corn
      \<lparr>d_soil = None, d_history = None, d_recommendations = None\<rparr>) =
     Some \<lparr>score = 0, issues = [], strengths = []\<rparr>"
  by (simp add: getHealthScore_App_def buildFieldData_App_def Let_def)

text \<open>
  C3. For a soil object without silt the normalization is to set
  \<open>silt = max 0 (100 - sand - clay)\<close>. \<^verbatim>\<open>src/App.jsx\<close> has no such step: for the soil
  \<^verbatim>\<open>{sand: 30, clay: 20}\<close> without silt it publishes the soil object as it came, silt
  still missing, where the revised copy publishes silt 50 (in general: lemma
  \<open>buildFieldData_silt\<close>).
\<close>

theorem C3_App_publishes_soil_without_silt:
  "soil (buildFieldData_App click_corn (data_of soil_no_silt)) = Some soil_no_silt \<and>
   silt soil_no_silt = None \<and>
   map_option silt (soil (buildFieldData click_corn (data_of soil_no_silt))) = Some (Some 50)"
  by (simp add: buildFieldData_App_def buildFieldData_def data_of_def soil_no_silt_def
      or_default_def Let_def)

text \<open>
  C5. The texture class is to be \<^verbatim>\<open>Unknown\<close> only when sand and clay are both missing or
  zero. \<^verbatim>\<open>getTextureClass\<close> of \<^verbatim>\<open>src/App.jsx\<close> tests \<^verbatim>\<open>!sand || !clay\<close>: with sand 50 and
  clay missing (or zero) it answers \<^verbatim>\<open>Unknown\<close>, where the revised copy answers
  \<^verbatim>\<open>Sandy Loam\<close> (in general: lemmas \<open>getTextureClass_Unknown_iff\<close> and
  \<open>getTextureClass_thresholds\<close>).
\<close>

theorem C5_getTextureClass_App_one_missing:
  "getTextureClass_App (Some 50) None = ''Unknown'' \<and>
   getTextureClass_App (Some 50) (Some 0) = ''Unknown'' \<and>
   getTextureClass (Some 50) None = ''Sandy Loam'' \<and>
   getTextureClass (Some 50) (Some 0) = ''Sandy Loam''"
  by (simp add: getTextureClass_App_def getTextureClass_def falsy_def or_default_def)

text \<open>
  C9. For every present soil sample the health score lies between 50 and 100, and
  \<^verbatim>\<open>Math.max(0, score)\<close> changes nothing: the score returned is the score the three checks
  leave. This holds in both copies.
\<close>

theorem C9_health_score_at_least_50:
  "(\<exists>h. getHealthScore (Some s) = Some h \<and> 50 \<le> score h \<and> score h \<le> 100 \<and>
        score h = score (healthChecks (or_default (ph s) 6.5) (or_default (soc s) 20)
                           (or_default (nitrogen s) 2.5))) \<and>
   50 \<le> score (getHealthScore_App (Some s)) \<and> score (getHealthScore_App (Some s)) \<le> 100 \<and>
   score (getHealthScore_App (Some s)) = score (healthChecks_App s)"
proof -
  let ?c = "healthChecks (or_default (ph s) 6.5) (or_default (soc s) 20) (or_default (nitrogen s) 2.5)"
  have b: "50 \<le> score ?c \<and> score ?c \<le> 100"
    by (rule healthChecks_score_bounds)
  have a: "50 \<le> score (healthChecks_App s) \<and> score (healthChecks_App s) \<le> 100"
    by (rule healthChecks_App_score_bounds)
  have "getHealthScore (Some s) = Some (?c\<lparr>score := max 0 (score ?c)\<rparr>)"
    by (simp add: getHealthScore_def Let_def)
  moreover have "max 0 (score ?c) = score ?c"
    using b by simp
  ultimately have "\<exists>h. getHealthScore (Some s) = Some h \<and> 50 \<le> score h \<and> score h \<le> 100 \<and>
        score h = score ?c"
    using b by simp
  moreover have "score (getHealthScore_App (Some s)) = score (healthChecks_App s)"
    using a by (simp add: getHealthScore_App_def Let_def)
  ultimately show ?thesis using a by simp
qed

theorem C9_health_score_at_least_50_witness:
  "(\<exists>h. getHealthScore (Some soil_low_n) = Some h \<and> 50 \<le> score h \<and> score h \<le> 100) \<and>
   50 \<le> score (getHealthScore_App (Some soil_low_n)) \<and>
   score (getHealthScore_App (Some soil_low_n)) \<le> 100"
  using C9_health_score_at_least_50 [of soil_low_n] by blast

text \<open>
  C10. The revised helpers put the defaults in themselves: the result for a soil sample is
  the result for the sample with \<^verbatim>\<open>ph || 6.5\<close>, \<^verbatim>\<open>soc || 20\<close> and \<^verbatim>\<open>nitrogen || 2.5\<close> in
  place of the three values. So for every sample with \<open>ph = 0\<close>, \<^verbatim>\<open>getHealthScore\<close>
  records the strength "pH is in optimal range", deducts nothing for the pH (the score is
  100 less the organic-carbon and nitrogen deductions, and every issue is one of those
  two), and \<^verbatim>\<open>getFertilizerPlan\<close> has no pH (Ag Limestone) entry.
\<close>

theorem C10_zero_ph_takes_default:
  assumes "ph s = Some 0"
  shows "getHealthScore (Some s) =
           getHealthScore (Some (s\<lparr>ph := Some (or_default (ph s) 6.5),
                                   soc := Some (or_default (soc s) 20),
                                   nitrogen := Some (or_default (nitrogen s) 2.5)\<rparr>)) \<and>
         getFertilizerPlan (Some s) =
           getFertilizerPlan (Some (s\<lparr>ph := Some (or_default (ph s) 6.5),
                                      nitrogen := Some (or_default (nitrogen s) 2.5)\<rparr>)) \<and>
         (\<exists>h. getHealthScore (Some s) = Some h \<and>
           \<lparr>message = ''pH is in optimal range'', severity = None\<rparr> \<in> set (strengths h) \<and>
           score h = 100 - (if or_default (soc s) 20 < 15 then 20 else 0)
                         - (if or_default (nitrogen s) 2.5 < 2 then 15 else 0) \<and>
           (\<forall>e \<in> set (issues h). message e = ''Low organic matter'' \<or> message e = ''Low Nitrogen'')) \<and>
         (\<forall>r \<in> set (getFertilizerPlan (Some s)).
           fertilizer r \<noteq> ''Ag Limestone'' \<and> nutrient r \<noteq> ''pH Adjustment'')"
proof -
  have p: "or_default (ph s) d = d" for d
    using assms by (simp add: or_default_zero)
  have h1: "getHealthScore (Some s) =
           getHealthScore (Some (s\<lparr>ph := Some (or_default (ph s) 6.5),
                                   soc := Some (or_default (soc s) 20),
                                   nitrogen := Some (or_default (nitrogen s) 2.5)\<rparr>))"
    by (simp add: getHealthScore_def or_default_idem)
  have h2: "getFertilizerPlan (Some s) =
           getFertilizerPlan (Some (s\<lparr>ph := Some (or_default (ph s) 6.5),
                                      nitrogen := Some (or_default (nitrogen s) 2.5)\<rparr>))"
    by (simp add: getFertilizerPlan_def or_default_idem)
  have h3: "\<exists>h. getHealthScore (Some s) = Some h \<and>
           \<lparr>message = ''pH is in optimal range'', severity = None\<rparr> \<in> set (strengths h) \<and>
           score h = 100 - (if or_default (soc s) 20 < 15 then 20 else 0)
                         - (if or_default (nitrogen s) 2.5 < 2 then 15 else 0) \<and>
           (\<forall>e \<in> set (issues h). message e = ''Low organic matter'' \<or> message e = ''Low Nitrogen'')"
    by (simp add: getHealthScore_def healthChecks_def p Let_def)
  have h4: "\<forall>r \<in> set (getFertilizerPlan (Some s)).
           fertilizer r \<noteq> ''Ag Limestone'' \<and> nutrient r \<noteq> ''pH Adjustment''"
    by (simp add: getFertilizerPlan_def p Let_def)
  from h1 h2 h3 h4 show ?thesis by blast
qed

theorem C10_zero_ph_takes_default_witness:
  "ph soil_zero_ph = Some 0 \<and>
   getHealthScore (Some soil_zero_ph) =
     Some \<lparr>score = 100, issues = [],
            strengths = [\<lparr>message = ''pH is in optimal range'', severity = None\<rparr>,
                         \<lparr>message = ''Good organic matter'', severity = None\<rparr>]\<rparr> \<and>
   getFertilizerPlan (Some soil_zero_ph) = []"
proof -
  have z: "ph soil_zero_ph = Some 0"
    by (simp add: soil_zero_ph_def)
  have v: "getHealthScore (Some soil_zero_ph) =
     Some \<lparr>score = 100, issues = [],
            strengths = [\<lparr>message = ''pH is in optimal range'', severity = None\<rparr>,
                         \<lparr>message = ''Good organic matter'', severity = None\<rparr>]\<rparr>"
    by (simp add: getHealthScore_def healthChecks_def soil_zero_ph_def or_default_def Let_def)
  have w: "getFertilizerPlan (Some soil_zero_ph) = []"
    by (simp add: getFertilizerPlan_def soil_zero_ph_def or_default_def Let_def)
  from C10_zero_ph_takes_default [OF z] z v w show ?thesis by blast
qed

text \<open>
  C4. The claim asks, for every soil sample with nitrogen below 2.0, for a nitrogen entry
  whose current value is the nitrogen with one decimal place. Both copies format it with
  \<^verbatim>\<open>toFixed(2)\<close>: for nitrogen 1.5 the entry reads "1.50", where one decimal place would be
  "1.5". And the revised copy takes \<^verbatim>\<open>nitrogen || 2.5\<close>, so a nitrogen of exactly 0 is
  read as 2.5 and gives no entry at all.
\<close>

theorem C4_counterexample:
  "nitrogen soil_low_n = Some 1.5 \<and>
   getFertilizerPlan (Some soil_low_n) =
     [\<lparr>nutrient = ''Nitrogen (N)'', priority = ''HIGH'', amount = ''80-100 lbs/ac'',
       fertilizer = ''Urea (46-0-0)'', current = ''1.50'', target = ''3.5'',
       timing = ''Split application at planting''\<rparr>] \<and>
   getFertilizerPlan_App (Some soil_low_n) = getFertilizerPlan (Some soil_low_n) \<and>
   toFixed 1 1.5 = ''1.5'' \<and>
   nitrogen soil_zero_n = Some 0 \<and>
   getFertilizerPlan (Some soil_zero_n) = []"
  by code_simp

text \<open>
  C4, as amended. For every soil sample whose nitrogen is below 2.0 and not zero, the plan
  of either copy starts with the nitrogen entry: amount "80-100 lbs/ac", fertilizer
  "Urea (46-0-0)", current value \<^verbatim>\<open>nitrogen.toFixed(2)\<close> (two decimal places), target
  "3.5", timing "Split application at planting", priority HIGH.
\<close>

theorem C4_nitrogen_entry_two_decimals:
  assumes "nitrogen s = Some n" and "n < 2" and "n \<noteq> 0"
  shows "(\<exists>rest. getFertilizerPlan (Some s) =
            \<lparr>nutrient = ''Nitrogen (N)'', priority = ''HIGH'', amount = ''80-100 lbs/ac'',
              fertilizer = ''Urea (46-0-0)'', current = toFixed 2 n, target = ''3.5'',
              timing = ''Split application at planting''\<rparr> # rest) \<and>
         (\<exists>rest. getFertilizerPlan_App (Some s) =
            \<lparr>nutrient = ''Nitrogen (N)'', priority = ''HIGH'', amount = ''80-100 lbs/ac'',
              fertilizer = ''Urea (46-0-0)'', current = toFixed 2 n, target = ''3.5'',
              timing = ''Split application at planting''\<rparr> # rest)"
proof -
  have d: "or_default (nitrogen s) dflt = n" for dflt
    using assms by (simp add: or_default_nonzero)
  have "\<exists>rest. getFertilizerPlan (Some s) =
            \<lparr>nutrient = ''Nitrogen (N)'', priority = ''HIGH'', amount = ''80-100 lbs/ac'',
              fertilizer = ''Urea (46-0-0)'', current = toFixed 2 n, target = ''3.5'',
              timing = ''Split application at planting''\<rparr> # rest"
    using assms(2) by (simp add: getFertilizerPlan_def d Let_def)
  moreover have "\<exists>rest. getFertilizerPlan_App (Some s) =
            \<lparr>nutrient = ''Nitrogen (N)'', priority = ''HIGH'', amount = ''80-100 lbs/ac'',
              fertilizer = ''Urea (46-0-0)'', current = toFixed 2 n, target = ''3.5'',
              timing = ''Split application at planting''\<rparr> # rest"
    using assms(1,2) by (simp add: getFertilizerPlan_App_def Let_def split: option.splits)
  ultimately show ?thesis by blast
qed

theorem C4_nitrogen_entry_two_decimals_witness:
  "nitrogen soil_low_n = Some (3 / 2) \<and> (3 / 2 :: rat) < 2 \<and> (3 / 2 :: rat) \<noteq> 0 \<and>
   (\<exists>rest. getFertilizerPlan (Some soil_low_n) =
            \<lparr>nutrient = ''Nitrogen (N)'', priority = ''HIGH'', amount = ''80-100 lbs/ac'',
              fertilizer = ''Urea (46-0-0)'', current = toFixed 2 (3 / 2), target = ''3.5'',
              timing = ''Split application at planting''\<rparr> # rest) \<and>
   (\<exists>rest. getFertilizerPlan_App (Some soil_low_n) =
            \<lparr>nutrient = ''Nitrogen (N)'', priority = ''HIGH'', amount = ''80-100 lbs/ac'',
              fertilizer = ''Urea (46-0-0)'', current = toFixed 2 (3 / 2), target = ''3.5'',
              timing = ''Split application at planting''\<rparr> # rest)"
proof -
  have a: "nitrogen soil_low_n = Some (3 / 2)"
    by (simp add: soil_low_n_def)
  have b: "(3 / 2 :: rat) < 2" and c: "(3 / 2 :: rat) \<noteq> 0"
    by simp_all
  from C4_nitrogen_entry_two_decimals [OF a b c] a b c show ?thesis by blast
qed

text \<open>
  C8. When the analysis request fails (the fetch rejects, the response is not a success,
  or its body is not the JSON object), the call, from its start to its end, leaves the
  published result as it was, clears the loading flag, shows the alert "Analysis failed."
  once and has sent exactly its one request, so nothing is retried. This holds in both
  copies.
\<close>

theorem C8_failed_analysis_keeps_result:
  assumes "failed res"
  shows "fieldData (fetchAnalysisFromAzure_settle req res (fetchAnalysis_start req st)) = fieldData st \<and>
         loading (fetchAnalysisFromAzure_settle req res (fetchAnalysis_start req st)) = False \<and>
         alerts (fetchAnalysisFromAzure_settle req res (fetchAnalysis_start req st)) =
           alerts st @ [''Analysis failed.''] \<and>
         fetches (fetchAnalysisFromAzure_settle req res (fetchAnalysis_start req st)) =
           fetches st @ [(lat req, lon req)] \<and>
         fieldData (fetchAnalysisFromAzure_App_settle req res (fetchAnalysis_start req st)) = fieldData st \<and>
         loading (fetchAnalysisFromAzure_App_settle req res (fetchAnalysis_start req st)) = False \<and>
         alerts (fetchAnalysisFromAzure_App_settle req res (fetchAnalysis_start req st)) =
           alerts st @ [''Analysis failed.''] \<and>
         fetches (fetchAnalysisFromAzure_App_settle req res (fetchAnalysis_start req st)) =
           fetches st @ [(lat req, lon req)]"
proof -
  have "fieldData (fetchAnalysis_settle build req res (fetchAnalysis_start req st)) = fieldData st \<and>
        loading (fetchAnalysis_settle build req res (fetchAnalysis_start req st)) = False \<and>
        alerts (fetchAnalysis_settle build req res (fetchAnalysis_start req st)) =
          alerts st @ [''Analysis failed.''] \<and>
        fetches (fetchAnalysis_settle build req res (fetchAnalysis_start req st)) =
          fetches st @ [(lat req, lon req)]" for build
  proof (cases res)
    case Rejected
    then show ?thesis
      by (simp add: fetchAnalysis_settle_def fetchAnalysis_start_def catch_block_def
          finally_block_def Let_def)
  next
    case (Response ok statusText b)
    with assms show ?thesis
      by (cases b)
        (simp_all add: fetchAnalysis_settle_def fetchAnalysis_start_def catch_block_def
          finally_block_def Let_def)
  qed
  then show ?thesis
    by (simp add: fetchAnalysisFromAzure_settle_def fetchAnalysisFromAzure_App_settle_def)
qed

theorem C8_failed_analysis_keeps_result_witness:
  "failed (Response False ''Internal Server Error'' BadJson) \<and>
   fieldData (fetchAnalysisFromAzure_settle click_soy (Response False ''Internal Server Error'' BadJson)
      (fetchAnalysis_start click_soy shown_corn)) = fieldData shown_corn \<and>
   fieldData shown_corn = Some (buildFieldData click_corn (data_of soil_low_n)) \<and>
   loading (fetchAnalysisFromAzure_settle click_soy (Response False ''Internal Server Error'' BadJson)
      (fetchAnalysis_start click_soy shown_corn)) = False \<and>
   alerts (fetchAnalysisFromAzure_settle click_soy (Response False ''Internal Server Error'' BadJson)
      (fetchAnalysis_start click_soy shown_corn)) = [''Analysis failed.''] \<and>
   fetches (fetchAnalysisFromAzure_settle click_soy (Response False ''Internal Server Error'' BadJson)
      (fetchAnalysis_start click_soy shown_corn)) = [(42, -94)]"
proof -
  have f: "failed (Response False ''Internal Server Error'' BadJson)"
    by simp
  have s: "fieldData shown_corn = Some (buildFieldData click_corn (data_of soil_low_n))"
      "alerts shown_corn = []" "fetches shown_corn = []"
    by (simp_all add: shown_corn_def initial_ui_def)
  have r: "lat click_soy = 42" "lon click_soy = -94"
    by (simp_all add: click_soy_def)
  from C8_failed_analysis_keeps_result [OF f, of click_soy shown_corn] f s r
  show ?thesis by simp
qed

text \<open>
  C2. The claim asks that, of two clicks whose requests are answered in the opposite
  order, the published result be that of the second click. Neither copy keeps a marker of
  the current request: each continuation calls \<^verbatim>\<open>setFieldData\<close> with the arguments of its
  own closure. After the clicks on the corn field and then on the soybean field, with the
  soybean answer arriving first, the page ends up showing the corn field.
\<close>

theorem C2_counterexample:
  "map_option cropName (fieldData (ui (run fetchAnalysisFromAzure_settle
      [Click click_corn, Click click_soy,
       Settle 1 (Response True ''OK'' (Json (data_of soil_low_n))),
       Settle 0 (Response True ''OK'' (Json (data_of soil_no_silt)))]
      (fresh initial_ui)))) = Some ''Corn'' \<and>
   map_option location (fieldData (ui (run fetchAnalysisFromAzure_settle
      [Click click_corn, Click click_soy,
       Settle 1 (Response True ''OK'' (Json (data_of soil_low_n))),
       Settle 0 (Response True ''OK'' (Json (data_of soil_no_silt)))]
      (fresh initial_ui)))) = Some (41, - 93) \<and>
   map_option cropName (fieldData (ui (run fetchAnalysisFromAzure_App_settle
      [Click click_corn, Click click_soy,
       Settle 1 (Response True ''OK'' (Json (data_of soil_low_n))),
       Settle 0 (Response True ''OK'' (Json (data_of soil_no_silt)))]
      (fresh initial_ui)))) = Some ''Corn'' \<and>
   r_cropName click_soy = ''Soybeans'' \<and> location (buildFieldData click_soy (data_of soil_low_n)) = (42, - 94)"
  by (simp add: step_def fresh_def fetchAnalysisFromAzure_settle_def
      fetchAnalysisFromAzure_App_settle_def fetchAnalysis_settle_def finally_block_def
      buildFieldData_def buildFieldData_App_def click_corn_def click_soy_def Let_def)

text \<open>
  C2, as amended. The published result is that of the request answered last: for every
  two clicks whose requests both succeed, the first answered after the second, the page
  ends up with the result built from the first click and its answer; the late answer
  overwrites the result of the newer click. This holds in both copies, from any state of
  the page.
\<close>

theorem C2_last_answer_wins:
  "fieldData (ui (run fetchAnalysisFromAzure_settle
      [Click r1, Click r2, Settle 1 (Response True t2 (Json d2)), Settle 0 (Response True t1 (Json d1))]
      (fresh st))) = Some (buildFieldData r1 d1) \<and>
   fieldData (ui (run fetchAnalysisFromAzure_App_settle
      [Click r1, Click r2, Settle 1 (Response True t2 (Json d2)), Settle 0 (Response True t1 (Json d1))]
      (fresh st))) = Some (buildFieldData_App r1 d1)"
  by (simp add: step_def fresh_def fetchAnalysisFromAzure_settle_def
      fetchAnalysisFromAzure_App_settle_def fetchAnalysis_settle_def finally_block_def)

theorem C2_last_answer_wins_witness:
  "fieldData (ui (run fetchAnalysisFromAzure_settle
      [Click click_corn, Click click_soy,
       Settle 1 (Response True ''OK'' (Json (data_of soil_low_n))),
       Settle 0 (Response True ''OK'' (Json (data_of soil_no_silt)))]
      (fresh initial_ui))) = Some (buildFieldData click_corn (data_of soil_no_silt))"
  using C2_last_answer_wins [of click_corn click_soy "''OK''" "data_of soil_low_n" "''OK''"
      "data_of soil_no_silt" initial_ui]
  by simp

text \<open>
  C6. An input shorter than three characters is to cancel the pending request, so that
  no lookup for the older query is sent. \<^verbatim>\<open>handleAddressChange\<close> returns on the short
  input before it reaches \<^verbatim>\<open>clearTimeout\<close>: after "Mai" and then "Ma" the timer set for
  "Mai" is still pending; when it fires the lookup for "Mai" is sent, and its answer
  fills and opens the list while the box reads "Ma". The short input hides the list but
  does not empty it either.
\<close>

theorem C6_short_input_keeps_timer:
  "timers (search_run [Change ''Mai'', Change ''Ma''] initial_search) = [(1, ''Mai'')] \<and>
   calls (search_run [Change ''Mai'', Change ''Ma'', TimerFires 1] initial_search) = [''Mai''] \<and>
   address (search_run [Change ''Mai'', Change ''Ma'', TimerFires 1,
      Answer 0 (SearchJson (Array [maine]))] initial_search) = ''Ma'' \<and>
   showSuggestions (search_run [Change ''Mai'', Change ''Ma'', TimerFires 1,
      Answer 0 (SearchJson (Array [maine]))] initial_search) = True \<and>
   map display_name (suggestions (search_run [Change ''Mai'', Change ''Ma'', TimerFires 1,
      Answer 0 (SearchJson (Array [maine]))] initial_search)) = [''Maine, United States'']"
  by code_simp

text \<open>
  C7. The claim asks that an answer to an earlier lookup, arriving after the answer to a
  later one was applied, be dropped. The callback has no marker of the current request
  (\<^verbatim>\<open>clearTimeout\<close> stops a timer that has not fired, not a request already sent): after
  "Mai" and "Main", both sent, with the answer for "Main" applied first, the answer for
  "Mai" replaces the list.
\<close>

theorem C7_counterexample:
  "calls (search_run [Change ''Mai'', TimerFires 1, Change ''Main'', TimerFires 2]
      initial_search) = [''Mai'', ''Main''] \<and>
   map display_name (suggestions (search_run [Change ''Mai'', TimerFires 1, Change ''Main'',
      TimerFires 2, Answer 1 (SearchJson (Array [main_st]))] initial_search)) =
     [''Main St, Springfield''] \<and>
   map display_name (suggestions (search_run [Change ''Mai'', TimerFires 1, Change ''Main'',
      TimerFires 2, Answer 1 (SearchJson (Array [main_st])),
      Answer 0 (SearchJson (Array [maine]))] initial_search)) =
     [''Maine, United States''] \<and>
   address (search_run [Change ''Mai'', TimerFires 1, Change ''Main'',
      TimerFires 2, Answer 1 (SearchJson (Array [main_st])),
      Answer 0 (SearchJson (Array [maine]))] initial_search) = ''Main''"
  by code_simp

text \<open>
  C7, as amended. The visible suggestions are those of the answer applied last: for every
  two queries of three characters or more, each sent when its timer fired, with the
  answer to the second applied before the answer to the first, the list ends up as the
  ranking of the first query's answer.
\<close>

theorem C7_last_answer_wins:
  assumes "3 \<le> length v1" and "3 \<le> length v2"
  shows "suggestions (search_run [Change v1, TimerFires 1, Change v2, TimerFires 2,
            Answer 1 (SearchJson (Array xs2)), Answer 0 (SearchJson (Array xs1))]
            initial_search) = rank v1 xs1 \<and>
         showSuggestions (search_run [Change v1, TimerFires 1, Change v2, TimerFires 2,
            Answer 1 (SearchJson (Array xs2)), Answer 0 (SearchJson (Array xs1))]
            initial_search) = (length (rank v1 xs1) > 0)"
  using assms
  by (simp add: search_step_def handleAddressChange_def timer_fires_def clearTimeout_def
      search_settle_def initial_search_def Let_def)

theorem C7_last_answer_wins_witness:
  "3 \<le> length ''Mai'' \<and> 3 \<le> length ''Main'' \<and>
   suggestions (search_run [Change ''Mai'', TimerFires 1, Change ''Main'', TimerFires 2,
            Answer 1 (SearchJson (Array [main_st])), Answer 0 (SearchJson (Array [maine]))]
            initial_search) = rank ''Mai'' [maine]"
proof -
  have a: "3 \<le> length ''Mai''" and b: "3 \<le> length ''Main''"
    by simp_all
  from C7_last_answer_wins [OF a b, of "[main_st]" "[maine]"] a b show ?thesis by blast
qed

end
